theory Spec2Isabelle
  imports Main "HOL-Library.Word" "HOL-Library.Multiset"
begin

section \<open>Shared vocabulary\<close>

text \<open>
  The repository holds the mDNS responder in two codecs.  The files built on
  \<^verbatim>\<open>github.com/miekg/dns\<close> are \<^verbatim>\<open>config.go\<close> (stored behind \<^verbatim>\<open>src/go.mod\<close>) and the
  connection files \<^verbatim>\<open>src/unnamed/part_001\<close> and \<^verbatim>\<open>src/unnamed/part_002\<close>; their
  definitions keep the source names.  The files built on
  \<^verbatim>\<open>golang.org/x/net/dns/dnsmessage\<close> are \<^verbatim>\<open>src/conn.go\<close> and the configuration in
  \<^verbatim>\<open>src/unnamed/part_000\<close>; their definitions carry the suffix \<^verbatim>\<open>_dm\<close>.

  Go errors are values of \<open>error\<close>; a function that returns \<^verbatim>\<open>error\<close> returns
  \<open>error option\<close> (\<open>None\<close> is \<^verbatim>\<open>nil\<close>).  A Go run-time panic (index out of
  range) is the value \<open>Panic\<close> of \<open>'a go\<close>.
\<close>

datatype error =
    errJoiningMulticastGroup
  | errConnectionClosed
  | errContextElapsed
  | errNilConfig
  | errRecordExists
  | errRecordNotFound
  | errInvalidParameter
  | errInvalidPacket
  | errCalcLen

datatype 'a go = Panic | Return 'a

type_synonym uint16 = "16 word"
type_synonym uint32 = "32 word"
type_synonym IP = "8 word list"

definition TypeA :: uint16 where "TypeA = 1"
definition TypeAAAA :: uint16 where "TypeAAAA = 28"
definition TypeSRV :: uint16 where "TypeSRV = 33"
definition ClassINET :: uint16 where "ClassINET = 1"

definition responseTTL :: uint32 where "responseTTL = 10"
definition maxMessageRecords :: nat where "maxMessageRecords = 3"
definition maxQueryMessageRecords :: nat where "maxQueryMessageRecords = 1"

text \<open>
  Modelled from the spec: \<^verbatim>\<open>addDot\<close> is called by \<^verbatim>\<open>config.go\<close> and the miekg
  connection files but its file is not among the sources.  The spec (4.2) words it as
  "Canonicalize name (append '.' if missing, lowercase)".
\<close>

definition lower_char :: "char \<Rightarrow> char" where
  "lower_char ch =
     (if 65 \<le> (of_char ch :: nat) \<and> (of_char ch :: nat) \<le> 90
      then char_of ((of_char ch :: nat) + 32) else ch)"

definition addDot :: "string \<Rightarrow> string" where
  "addDot name =
     map lower_char (if name \<noteq> [] \<and> last name = CHR ''.'' then name else name @ ''.'')"

section \<open>The record store of the miekg variant (config.go)\<close>

record RR_Header =
  Name :: string
  Rrtype :: uint16
  Class :: uint16
  Ttl :: uint32

record dns_A =
  A_Hdr :: RR_Header
  A_A :: IP

record DynamicARR =
  A :: dns_A
  Dynamic :: bool

record dns_SRV =
  SRV_Hdr :: RR_Header
  Priority :: uint16
  Weight :: uint16
  Port :: uint16
  Target :: string

record Config =
  QueryInterval :: int
  ARecords :: "DynamicARR list"
  SRVRecords :: "dns_SRV list"

text \<open>
  \<^verbatim>\<open>dns.RR\<close> is an interface.  The values the sources put behind it are a
  \<^verbatim>\<open>*DynamicARR\<close> (appended by \<^verbatim>\<open>Lookup\<close>), and what \<^verbatim>\<open>Msg.Unpack\<close> yields for an
  inbound record: a \<^verbatim>\<open>*dns.A\<close>, a \<^verbatim>\<open>*dns.SRV\<close>, or a record of another type, of which
  only the header matters here.
\<close>

datatype RR =
    RR_DynamicARR DynamicARR
  | RR_A dns_A
  | RR_SRV dns_SRV
  | RR_Other RR_Header

record Question =
  QName :: string
  Qtype :: uint16
  Qclass :: uint16

text \<open>
  \<^verbatim>\<open>append(c.ARecords[:i], c.ARecords[i+1])\<close>: the second argument is the single
  element at index \<open>i+1\<close>, so Go checks \<open>i+1 < len\<close> and panics otherwise; the
  result is the first \<open>i\<close> elements followed by that one element.
\<close>

definition append_elem_after :: "'a list \<Rightarrow> nat \<Rightarrow> 'a list go" where
  "append_elem_after xs i =
     (if Suc i < length xs then Return (take i xs @ [xs ! Suc i]) else Panic)"

text \<open>
  The loops \<^verbatim>\<open>for i := len(..) - 1; i >= 0; i--\<close> are recursions on \<open>k = i + 1\<close>,
  started at the length of the list.  The result is the returned error and the
  record list as the call leaves it.
\<close>

fun removeARecord_from :: "string \<Rightarrow> DynamicARR list \<Rightarrow> nat \<Rightarrow> (error option \<times> DynamicARR list) go" where
  "removeARecord_from name recs 0 = Return (Some errRecordNotFound, recs)"
| "removeARecord_from name recs (Suc i) =
     (if Name (A_Hdr (A (recs ! i))) = name
      then (case append_elem_after recs i of
              Panic \<Rightarrow> Panic
            | Return recs' \<Rightarrow> Return (None, recs'))
      else removeARecord_from name recs i)"

definition removeARecord :: "string \<Rightarrow> Config \<Rightarrow> (error option \<times> Config) go" where
  "removeARecord name c =
     (case removeARecord_from name (ARecords c) (length (ARecords c)) of
        Panic \<Rightarrow> Panic
      | Return (err, recs) \<Rightarrow> Return (err, c\<lparr>ARecords := recs\<rparr>))"

fun removeSRVRecord_from :: "string \<Rightarrow> dns_SRV list \<Rightarrow> nat \<Rightarrow> (error option \<times> dns_SRV list) go" where
  "removeSRVRecord_from name recs 0 = Return (Some errRecordNotFound, recs)"
| "removeSRVRecord_from name recs (Suc i) =
     (if Name (SRV_Hdr (recs ! i)) = name
      then (case append_elem_after recs i of
              Panic \<Rightarrow> Panic
            | Return recs' \<Rightarrow> Return (None, recs'))
      else removeSRVRecord_from name recs i)"

definition removeSRVRecord :: "string \<Rightarrow> Config \<Rightarrow> (error option \<times> Config) go" where
  "removeSRVRecord name c =
     (case removeSRVRecord_from name (SRVRecords c) (length (SRVRecords c)) of
        Panic \<Rightarrow> Panic
      | Return (err, recs) \<Rightarrow> Return (err, c\<lparr>SRVRecords := recs\<rparr>))"

text \<open>
  \<^verbatim>\<open>createSimpleARecord\<close> and \<^verbatim>\<open>createSRVRecord\<close> build the record from a struct
  literal; a field the literal does not name holds Go's zero value (\<open>[]\<close> for the
  nil \<^verbatim>\<open>net.IP\<close>, \<open>0\<close> for a number).  Neither can fail.
\<close>

definition createSimpleARecord :: "string \<Rightarrow> DynamicARR" where
  "createSimpleARecord name =
     \<lparr>A = \<lparr>A_Hdr = \<lparr>Name = name, Rrtype = TypeA, Class = ClassINET, Ttl = responseTTL\<rparr>,
            A_A = []\<rparr>,
      Dynamic = False\<rparr>"

definition createSRVRecord :: "string \<Rightarrow> uint16 \<Rightarrow> uint16 \<Rightarrow> uint16 \<Rightarrow> string \<Rightarrow> dns_SRV" where
  "createSRVRecord name priority weight port target =
     \<lparr>SRV_Hdr = \<lparr>Name = name, Rrtype = TypeSRV, Class = ClassINET, Ttl = 0\<rparr>,
      Priority = priority, Weight = weight, Port = port, Target = target\<rparr>"

definition addARecordToConfig :: "DynamicARR \<Rightarrow> Config \<Rightarrow> error option \<times> Config" where
  "addARecordToConfig rec c =
     (if list_ex (\<lambda>r. Name (A_Hdr (A r)) = Name (A_Hdr (A rec))) (ARecords c)
      then (Some errRecordExists, c)
      else (None, c\<lparr>ARecords := ARecords c @ [rec]\<rparr>))"

definition addSRVRecordToConfig :: "dns_SRV \<Rightarrow> Config \<Rightarrow> error option \<times> Config" where
  "addSRVRecordToConfig rec c =
     (if list_ex (\<lambda>r. Name (SRV_Hdr r) = Name (SRV_Hdr rec)) (SRVRecords c)
      then (Some errRecordExists, c)
      else (None, c\<lparr>SRVRecords := SRVRecords c @ [rec]\<rparr>))"

text \<open>\<open>dst\<close> is the \<^verbatim>\<open>*net.IP\<close> argument: \<open>None\<close> is the nil pointer.\<close>

definition addARecord :: "string \<Rightarrow> IP option \<Rightarrow> bool \<Rightarrow> Config \<Rightarrow> error option \<times> Config" where
  "addARecord name dst dyn c =
     (if name = [] then (Some errInvalidParameter, c)
      else
        let name' = addDot name;
            rec = createSimpleARecord name';
            rec' = (case dst of
                      Some ip \<Rightarrow>
                        if \<not> dyn
                        then rec\<lparr>A := \<lparr>A_Hdr = (A_Hdr (A rec))\<lparr>Name := name'\<rparr>, A_A = ip\<rparr>,
                                 Dynamic := False\<rparr>
                        else rec\<lparr>Dynamic := True\<rparr>
                    | None \<Rightarrow> rec\<lparr>Dynamic := True\<rparr>)
        in addARecordToConfig rec' c)"

definition addSRVRecord :: "string \<Rightarrow> uint16 \<Rightarrow> uint16 \<Rightarrow> uint16 \<Rightarrow> string \<Rightarrow> Config \<Rightarrow> error option \<times> Config" where
  "addSRVRecord name priority weight port target c =
     (if name = [] \<or> target = [] then (Some errInvalidParameter, c)
      else addSRVRecordToConfig
             (createSRVRecord (addDot name) priority weight port (addDot target)) c)"

definition lookupA :: "Config \<Rightarrow> string \<Rightarrow> DynamicARR option" where
  "lookupA c qName = find (\<lambda>aRec. Name (A_Hdr (A aRec)) = qName) (ARecords c)"

definition lookupSRV :: "Config \<Rightarrow> string \<Rightarrow> dns_SRV option" where
  "lookupSRV c qName = find (\<lambda>srvRec. Name (SRV_Hdr srvRec) = qName) (SRVRecords c)"

text \<open>
  \<^verbatim>\<open>interfaceForRemote\<close> (the interface resolver) opens a socket; it is the
  parameter \<open>ifr\<close>, from the peer address to the local address or \<open>None\<close> when
  resolution fails.  The peer address \<^verbatim>\<open>net.Addr\<close> is its string.
\<close>

definition AddDynamicIP :: "(string \<Rightarrow> IP option) \<Rightarrow> string \<Rightarrow> DynamicARR \<Rightarrow> DynamicARR \<times> error option" where
  "AddDynamicIP ifr src d =
     (case ifr src of
        None \<Rightarrow> (d, Some errInvalidParameter)
      | Some dst \<Rightarrow> (d\<lparr>A := (A d)\<lparr>A_A := dst\<rparr>\<rparr>, None))"

text \<open>
  \<^verbatim>\<open>Lookup\<close> appends to the caller's slice through the pointer \<^verbatim>\<open>answers\<close>; the
  model returns the slice as the call leaves it together with the error.
\<close>

function Lookup :: "(string \<Rightarrow> IP option) \<Rightarrow> Config \<Rightarrow> RR list \<Rightarrow> Question \<Rightarrow> string \<Rightarrow> RR list \<times> error option" where
  "Lookup ifr c answers q src =
     (if Qtype q = TypeA then
        (case lookupA c (QName q) of
           Some rec \<Rightarrow>
             if Dynamic rec then
               (case AddDynamicIP ifr src rec of
                  (rec', Some err) \<Rightarrow> (answers, Some err)
                | (rec', None) \<Rightarrow> (answers @ [RR_DynamicARR rec'], None))
             else (answers @ [RR_DynamicARR rec], None)
         | None \<Rightarrow> (answers, None))
      else if Qtype q = TypeSRV then
        (case lookupSRV c (QName q) of
           Some rec \<Rightarrow>
             Lookup ifr c (answers @ [RR_SRV rec])
               \<lparr>QName = Target rec, Qtype = TypeA, Qclass = Class (SRV_Hdr rec)\<rparr> src
         | None \<Rightarrow> (answers, None))
      else (answers, None))"
  by pat_completeness auto
termination
  by (relation "measure (\<lambda>(ifr, c, answers, q, src). if Qtype q = TypeA then 0 else 1)") auto

declare Lookup.simps [simp del]

section \<open>The connection of the miekg variant (part_001)\<close>

record query =
  ttype :: uint16
  nameWithSuffix :: string
  queryResultChan :: nat

record QueryResult =
  answer :: "RR list"
  addr :: string

record MsgHdr =
  Id :: uint16
  Response :: bool
  Opcode :: int
  Authoritative :: bool
  Truncated :: bool
  RecursionDesired :: bool
  Rcode :: int

record Msg = MsgHdr +
  Compress :: bool
  Question :: "Question list"
  Answer :: "RR list"

record packet =
  pkt_buf :: "8 word list"
  pkt_src :: string

text \<open>
  \<open>Conn\<close> holds the fields of the struct the functions below read or write
  (\<open>config\<close>, \<open>queries\<close>, \<open>closed\<close>: whether the channel has been closed) and,
  as explicit state, the effects of the code on its surroundings:
  \<^item> \<open>socket_out\<close>: the messages \<^verbatim>\<open>sendAnswer\<close> and \<^verbatim>\<open>sendQuestion\<close> hand to
    \<^verbatim>\<open>msg.Pack\<close> and \<^verbatim>\<open>socket.WriteTo\<close>, in order (a failure of either is only logged
    by the source and sends nothing);
  \<^item> \<open>chan_out\<close>: the sends on a \<^verbatim>\<open>queryResultChan\<close>, in order, each with the channel;
  \<^item> \<open>chans\<close>: how many channels \<^verbatim>\<open>make\<close> has created (a channel is its number);
  \<^item> \<open>tickers\<close>: the tickers created by \<^verbatim>\<open>time.NewTicker\<close> and not stopped.
\<close>

record Conn =
  config :: Config
  queries :: "query list"
  closed :: bool
  socket_out :: "Msg list"
  chan_out :: "(nat \<times> QueryResult) list"
  chans :: nat
  tickers :: nat

definition createAnswerMessage :: "Msg \<Rightarrow> RR list \<Rightarrow> Msg" where
  "createAnswerMessage q answers =
     \<lparr>Id = Id q, Response = True, Opcode = 0, Authoritative = True, Truncated = False,
      RecursionDesired = False, Rcode = 0, Compress = True, Question = [], Answer = answers\<rparr>"

definition sendAnswer :: "Msg \<Rightarrow> string \<Rightarrow> Conn \<Rightarrow> Conn" where
  "sendAnswer msg src c = c\<lparr>socket_out := socket_out c @ [msg]\<rparr>"

definition processQuestions :: "(string \<Rightarrow> IP option) \<Rightarrow> Msg \<Rightarrow> string \<Rightarrow> Conn \<Rightarrow> Conn" where
  "processQuestions ifr msg src c =
     foldl (\<lambda>c q. case Lookup ifr (config c) [] q src of
                     (answers, None) \<Rightarrow> sendAnswer (createAnswerMessage msg answers) src c
                   | (answers, Some err) \<Rightarrow> c)
           c (Question msg)"

text \<open>
  The inner loop of \<^verbatim>\<open>processAnswers\<close>, \<^verbatim>\<open>for i := len(c.queries) - 1; i >= 0; i--\<close>,
  on \<open>k = i + 1\<close>: a query whose name and type equal the header's is sent the
  result and cut out with \<^verbatim>\<open>append(c.queries[:i], c.queries[i+1:]...)\<close>.
\<close>

fun deliver_from :: "RR_Header \<Rightarrow> QueryResult \<Rightarrow> nat \<Rightarrow> Conn \<Rightarrow> Conn" where
  "deliver_from h res 0 c = c"
| "deliver_from h res (Suc i) c =
     (if nameWithSuffix (queries c ! i) = Name h \<and> ttype (queries c ! i) = Rrtype h
      then deliver_from h res i
             (c\<lparr>chan_out := chan_out c @ [(queryResultChan (queries c ! i), res)],
                queries := take i (queries c) @ drop (Suc i) (queries c)\<rparr>)
      else deliver_from h res i c)"

text \<open>The type switch of \<^verbatim>\<open>processAnswers\<close>: only \<^verbatim>\<open>*dns.A\<close> and \<^verbatim>\<open>*dns.SRV\<close> have a case.\<close>

fun switch_header :: "RR \<Rightarrow> RR_Header option" where
  "switch_header (RR_A rr) = Some (A_Hdr rr)"
| "switch_header (RR_SRV rr) = Some (SRV_Hdr rr)"
| "switch_header (RR_DynamicARR rr) = None"
| "switch_header (RR_Other h) = None"

text \<open>
  The body of \<^verbatim>\<open>for _, a := range msg.Answer\<close>: the registry is scanned from its last
  entry down for the header of an answer the type switch lets through.
\<close>

definition answer_step :: "QueryResult \<Rightarrow> Conn \<Rightarrow> RR \<Rightarrow> Conn" where
  "answer_step res c a =
     (case switch_header a of
        Some h \<Rightarrow> deliver_from h res (length (queries c)) c
      | None \<Rightarrow> c)"

definition processAnswers :: "Msg \<Rightarrow> string \<Rightarrow> Conn \<Rightarrow> Conn" where
  "processAnswers msg src c =
     foldl (answer_step \<lparr>answer = Answer msg, addr = src\<rparr>) c (Answer msg)"

text \<open>
  One turn of the \<^verbatim>\<open>case p := <-queue\<close> branch of \<^verbatim>\<open>Start\<close>.  \<^verbatim>\<open>dns.IsMsg\<close> refuses
  a buffer shorter than the 12-byte header; \<^verbatim>\<open>msg.Unpack\<close>, the library's parser, is
  the parameter \<open>unpack\<close> (\<open>None\<close>: a parse error).
\<close>

definition Start_packet :: "(8 word list \<Rightarrow> Msg option) \<Rightarrow> (string \<Rightarrow> IP option) \<Rightarrow> packet \<Rightarrow> Conn \<Rightarrow> Conn" where
  "Start_packet unpack ifr p c =
     (if length (pkt_buf p) < 12 then c
      else case unpack (pkt_buf p) of
             None \<Rightarrow> c
           | Some msg \<Rightarrow>
               if Opcode msg \<noteq> 0 then c
               else if Rcode msg \<noteq> 0 then c
               else if Truncated msg then c
               else processAnswers msg (pkt_src p) (processQuestions ifr msg (pkt_src p) c))"

text \<open>
  \<^verbatim>\<open>sendQuestion\<close> starts from \<^verbatim>\<open>new(dns.Msg)\<close>, every field at its zero value, and
  calls \<^verbatim>\<open>Msg.SetQuestion\<close>.  That function belongs to the library
  \<^verbatim>\<open>github.com/miekg/dns\<close>, not to the repository; as the library documents it, it
  gives the message a fresh identifier from \<^verbatim>\<open>dns.Id()\<close>, sets \<^verbatim>\<open>RecursionDesired\<close> and
  installs the one question \<^verbatim>\<open>Question{z, t, ClassINET}\<close>.  The source then sets
  \<^verbatim>\<open>RecursionDesired\<close> again.  The identifier generator is the parameter \<open>new_id\<close>,
  asked with the number of messages sent before.
\<close>

definition new_Msg :: Msg where
  "new_Msg =
     \<lparr>Id = 0, Response = False, Opcode = 0, Authoritative = False, Truncated = False,
      RecursionDesired = False, Rcode = 0, Compress = False, Question = [], Answer = []\<rparr>"

definition SetQuestion :: "uint16 \<Rightarrow> string \<Rightarrow> uint16 \<Rightarrow> Msg \<Rightarrow> Msg" where
  "SetQuestion fresh z t m =
     m\<lparr>Id := fresh, RecursionDesired := True,
       Question := [\<lparr>QName = z, Qtype = t, Qclass = ClassINET\<rparr>]\<rparr>"

definition question_msg :: "uint16 \<Rightarrow> string \<Rightarrow> uint16 \<Rightarrow> Msg" where
  "question_msg fresh name ty = (SetQuestion fresh name ty new_Msg)\<lparr>RecursionDesired := True\<rparr>"

definition sendQuestion :: "(nat \<Rightarrow> uint16) \<Rightarrow> string \<Rightarrow> uint16 \<Rightarrow> Conn \<Rightarrow> Conn" where
  "sendQuestion new_id name ty c =
     c\<lparr>socket_out := socket_out c @ [question_msg (new_id (length (socket_out c))) name ty]\<rparr>"

text \<open>
  \<^verbatim>\<open>QuerySync\<close> blocks in a \<^verbatim>\<open>select\<close>.  The list of events is the order in which
  the \<^verbatim>\<open>select\<close> finds its cases ready; when the list runs out the call is still
  blocked and has no result (\<open>None\<close>).
\<close>

datatype 'r select_event = TickerC | ConnClosed | QueryChan 'r | CtxDone

fun QuerySync_select :: "(nat \<Rightarrow> uint16) \<Rightarrow> string \<Rightarrow> uint16 \<Rightarrow> QueryResult select_event list \<Rightarrow> Conn \<Rightarrow> (QueryResult option \<times> error option) option \<times> Conn" where
  "QuerySync_select new_id name ty [] c = (None, c)"
| "QuerySync_select new_id name ty (TickerC # es) c =
     QuerySync_select new_id name ty es (sendQuestion new_id name ty c)"
| "QuerySync_select new_id name ty (ConnClosed # es) c = (Some (None, Some errConnectionClosed), c)"
| "QuerySync_select new_id name ty (QueryChan res # es) c = (Some (Some res, None), c)"
| "QuerySync_select new_id name ty (CtxDone # es) c = (Some (None, Some errContextElapsed), c)"

definition QuerySync :: "(nat \<Rightarrow> uint16) \<Rightarrow> string \<Rightarrow> uint16 \<Rightarrow> QueryResult select_event list \<Rightarrow> Conn \<Rightarrow> (QueryResult option \<times> error option) option \<times> Conn" where
  "QuerySync new_id name ty es c =
     (if closed c then (Some (None, Some errConnectionClosed), c)
      else
        let name' = addDot name;
            c1 = c\<lparr>queries := queries c @
                        [\<lparr>ttype = ty, nameWithSuffix = name', queryResultChan = chans c\<rparr>],
                    chans := Suc (chans c),
                    tickers := Suc (tickers c)\<rparr>
        in QuerySync_select new_id name' ty es (sendQuestion new_id name' ty c1))"

section \<open>The dnsmessage variant (part_000 and conn.go)\<close>

record ResourceHeader =
  RH_Name :: string
  RH_Type :: uint16
  RH_Class :: uint16
  RH_TTL :: uint32

datatype ResourceBody =
    AResource "8 word list"
  | SRVResource (srv_Target: string) (srv_Priority: uint16) (srv_Weight: uint16) (srv_Port: uint16)

record Resource =
  Header :: ResourceHeader
  Body :: "ResourceBody option"

record DynamicARecord =
  Res :: Resource
  Dynamic_dm :: bool

record Config_dm =
  QueryInterval_dm :: int
  ARecords_dm :: "DynamicARecord list"
  SRVRecords_dm :: "Resource list"

text \<open>
  \<^verbatim>\<open>dnsmessage.NewName\<close> refuses a name longer than 255 bytes; \<^verbatim>\<open>Name.String()\<close>
  gives the string back, so a packed name is its string.
\<close>

definition NewName :: "string \<Rightarrow> error + string" where
  "NewName name = (if 255 < length name then Inl errCalcLen else Inr name)"

definition createSRVRecord_dm :: "string \<Rightarrow> uint16 \<Rightarrow> uint16 \<Rightarrow> uint16 \<Rightarrow> string \<Rightarrow> error + Resource" where
  "createSRVRecord_dm name priority weight port target =
     (case NewName name of
        Inl err \<Rightarrow> Inl err
      | Inr packedName \<Rightarrow>
          (case NewName target of
             Inl err \<Rightarrow> Inl err
           | Inr packedTarget \<Rightarrow>
               Inr \<lparr>Header = \<lparr>RH_Name = packedName, RH_Type = TypeA, RH_Class = ClassINET,
                              RH_TTL = responseTTL\<rparr>,
                    Body = Some (SRVResource packedTarget priority weight port)\<rparr>))"

definition addSRVRecordToConfig_dm :: "Resource \<Rightarrow> Config_dm \<Rightarrow> error option \<times> Config_dm" where
  "addSRVRecordToConfig_dm rec c =
     (if list_ex (\<lambda>r. RH_Name (Header r) = RH_Name (Header rec)) (SRVRecords_dm c)
      then (Some errRecordExists, c)
      else (None, c\<lparr>SRVRecords_dm := SRVRecords_dm c @ [rec]\<rparr>))"

definition AddSRVRecord_dm :: "string \<Rightarrow> uint16 \<Rightarrow> uint16 \<Rightarrow> uint16 \<Rightarrow> string \<Rightarrow> Config_dm \<Rightarrow> error option \<times> Config_dm" where
  "AddSRVRecord_dm name priority weight port target c =
     (if name = [] \<or> target = [] then (Some errInvalidParameter, c)
      else case createSRVRecord_dm name priority weight port target of
             Inl err \<Rightarrow> (Some err, c)
           | Inr rec \<Rightarrow> addSRVRecordToConfig_dm rec c)"

definition lookupA_dm :: "Config_dm \<Rightarrow> string \<Rightarrow> DynamicARecord option" where
  "lookupA_dm c qName = find (\<lambda>aRec. RH_Name (Header (Res aRec)) = qName) (ARecords_dm c)"

definition lookupSRV_dm :: "Config_dm \<Rightarrow> string \<Rightarrow> Resource option" where
  "lookupSRV_dm c qName = find (\<lambda>srvRec. RH_Name (Header srvRec) = qName) (SRVRecords_dm c)"

text \<open>
  In this variant the resolver parameter \<open>ifr\<close> stands for
  \<^verbatim>\<open>interfaceForRemote\<close> followed by \<^verbatim>\<open>ipToBytes\<close> (neither is among the sources).
\<close>

definition AddDynamicIP_dm :: "(string \<Rightarrow> IP option) \<Rightarrow> string \<Rightarrow> DynamicARecord \<Rightarrow> DynamicARecord \<times> error option" where
  "AddDynamicIP_dm ifr src d =
     (case ifr src of
        None \<Rightarrow> (d, Some errInvalidParameter)
      | Some dst \<Rightarrow> (d\<lparr>Res := (Res d)\<lparr>Body := Some (AResource dst)\<rparr>\<rparr>, None))"

text \<open>
  \<^verbatim>\<open>Lookup\<close> of part_000 takes the slice \<^verbatim>\<open>answers\<close> by value: what it appends stays
  in its own copy.  The model returns that local copy (as it stands when the call
  returns) and the error; the caller's slice is never changed.  The SRV case calls
  \<^verbatim>\<open>Lookup\<close> again with the name, type and class of the record's own header, which
  need not end, so the function is partial: \<open>None\<close> is a call that does not return.
\<close>

partial_function (option) Lookup_dm :: "(string \<Rightarrow> IP option) \<Rightarrow> Config_dm \<Rightarrow> Resource list \<Rightarrow> string \<Rightarrow> uint16 \<Rightarrow> uint16 \<Rightarrow> string \<Rightarrow> (Resource list \<times> error option) option" where
  "Lookup_dm ifr c answers name ty cls src =
     (if ty = TypeA then
        (case lookupA_dm c name of
           Some rec \<Rightarrow>
             if Dynamic_dm rec then
               (case AddDynamicIP_dm ifr src rec of
                  (rec', Some err) \<Rightarrow> Some (answers, Some err)
                | (rec', None) \<Rightarrow> Some (answers @ [Res rec'], None))
             else Some (answers @ [Res rec], None)
         | None \<Rightarrow> Some (answers, Some errRecordNotFound))
      else if ty = TypeSRV then
        (case lookupSRV_dm c name of
           Some rec \<Rightarrow>
             Option.bind
               (Lookup_dm ifr c answers (RH_Name (Header rec)) (RH_Type (Header rec))
                  (RH_Class (Header rec)) src)
               (\<lambda>inner. if snd inner \<noteq> None then Some (answers @ [rec], None)
                        else Some (answers, None))
         | None \<Rightarrow> Some (answers, Some errRecordNotFound))
      else Some (answers, Some errRecordNotFound))"

record Header_dm =
  ID_dm :: uint16
  Response_dm :: bool
  OpCode_dm :: nat
  Authoritative_dm :: bool
  Truncated_dm :: bool
  RecursionDesired_dm :: bool
  RecursionAvailable_dm :: bool
  RCode_dm :: nat

record Question_dm =
  Q_Name :: string
  Q_Type :: uint16
  Q_Class :: uint16

record Message_dm =
  M_Header :: Header_dm
  M_Questions :: "Question_dm list"
  M_Answers :: "Resource list"

record query_dm =
  ttype_dm :: uint16
  nameWithSuffix_dm :: string
  queryResultChan_dm :: nat

record queryResult_dm =
  answer_dm :: ResourceHeader
  addr_dm :: string

record Conn_dm =
  config_dm :: Config_dm
  queries_dm :: "query_dm list"
  closed_dm :: bool
  socket_out_dm :: "Message_dm list"
  chans_dm :: nat
  tickers_dm :: nat

text \<open>\<^verbatim>\<open>dnsmessage.Header{}\<close>: every field holds its zero value.\<close>

definition Header_zero :: Header_dm where
  "Header_zero =
     \<lparr>ID_dm = 0, Response_dm = False, OpCode_dm = 0, Authoritative_dm = False,
      Truncated_dm = False, RecursionDesired_dm = False, RecursionAvailable_dm = False,
      RCode_dm = 0\<rparr>"

definition createMessage :: "Resource list \<Rightarrow> Message_dm" where
  "createMessage answers =
     \<lparr>M_Header = Header_zero\<lparr>Response_dm := True, Authoritative_dm := True\<rparr>,
      M_Questions = [], M_Answers = answers\<rparr>"

definition sendAnswer_dm :: "Message_dm \<Rightarrow> Conn_dm \<Rightarrow> Conn_dm" where
  "sendAnswer_dm msg c = c\<lparr>socket_out_dm := socket_out_dm c @ [msg]\<rparr>"

text \<open>
  The first loop of the closure in \<^verbatim>\<open>start\<close> (conn.go):
  \<^verbatim>\<open>for i := 0; i <= maxQueryMessageRecords; i++\<close> reads at most two questions.
  \<open>qs\<close> are the questions \<^verbatim>\<open>p.Question()\<close> yields before \<^verbatim>\<open>ErrSectionDone\<close>.
  The slice \<^verbatim>\<open>answers\<close> is made empty, passed to \<^verbatim>\<open>Lookup\<close> by value and then given
  to \<^verbatim>\<open>createMessage\<close>, so the message is built from the empty slice.
\<close>

fun start_questions_dm :: "(string \<Rightarrow> IP option) \<Rightarrow> Question_dm list \<Rightarrow> string \<Rightarrow> Conn_dm \<Rightarrow> Conn_dm option" where
  "start_questions_dm ifr [] src c = Some c"
| "start_questions_dm ifr (q # qs) src c =
     (case Lookup_dm ifr (config_dm c) [] (Q_Name q) (Q_Type q) (Q_Class q) src of
        None \<Rightarrow> None
      | Some (inner, None) \<Rightarrow> start_questions_dm ifr qs src (sendAnswer_dm (createMessage []) c)
      | Some (inner, Some err) \<Rightarrow> start_questions_dm ifr qs src c)"

text \<open>
  A parsed inbound packet of this variant: the header \<^verbatim>\<open>p.Start\<close> returns, which the
  source discards, and the questions.  \<open>start_packet_dm\<close> is the closure of \<^verbatim>\<open>start\<close>
  up to the end of the question loop; nothing stands between \<^verbatim>\<open>p.Start\<close> and that
  loop.  The answer loop that follows writes nothing to the socket.
\<close>

record packet_dm =
  P_Header :: Header_dm
  P_Questions :: "Question_dm list"

definition start_packet_dm :: "(string \<Rightarrow> IP option) \<Rightarrow> packet_dm \<Rightarrow> string \<Rightarrow> Conn_dm \<Rightarrow> Conn_dm option" where
  "start_packet_dm ifr pkt src c =
     start_questions_dm ifr (take (Suc maxQueryMessageRecords) (P_Questions pkt)) src c"

definition question_msg_dm :: "string \<Rightarrow> uint16 \<Rightarrow> Message_dm" where
  "question_msg_dm packedName ty =
     \<lparr>M_Header = Header_zero,
      M_Questions = [\<lparr>Q_Name = packedName,
                      Q_Type = (if ty = TypeA then TypeA else if ty = TypeSRV then TypeSRV else 0),
                      Q_Class = ClassINET\<rparr>],
      M_Answers = []\<rparr>"

definition sendQuestion_dm :: "string \<Rightarrow> uint16 \<Rightarrow> Conn_dm \<Rightarrow> Conn_dm" where
  "sendQuestion_dm name ty c =
     (case NewName name of
        Inl err \<Rightarrow> c
      | Inr packedName \<Rightarrow>
          c\<lparr>socket_out_dm := socket_out_dm c @ [question_msg_dm packedName ty]\<rparr>)"

fun Query_select_dm :: "string \<Rightarrow> uint16 \<Rightarrow> queryResult_dm select_event list \<Rightarrow> Conn_dm \<Rightarrow> (queryResult_dm option \<times> error option) option \<times> Conn_dm" where
  "Query_select_dm name ty [] c = (None, c)"
| "Query_select_dm name ty (TickerC # es) c = Query_select_dm name ty es (sendQuestion_dm name ty c)"
| "Query_select_dm name ty (ConnClosed # es) c = (Some (None, Some errConnectionClosed), c)"
| "Query_select_dm name ty (QueryChan res # es) c = (Some (Some res, None), c)"
| "Query_select_dm name ty (CtxDone # es) c = (Some (None, Some errContextElapsed), c)"

definition Query_dm :: "string \<Rightarrow> uint16 \<Rightarrow> queryResult_dm select_event list \<Rightarrow> Conn_dm \<Rightarrow> (queryResult_dm option \<times> error option) option \<times> Conn_dm" where
  "Query_dm name ty es c =
     (if closed_dm c then (Some (None, Some errConnectionClosed), c)
      else
        let nameWithSuffix = name @ ''.'';
            c1 = c\<lparr>queries_dm := queries_dm c @
                        [\<lparr>ttype_dm = ty, nameWithSuffix_dm = nameWithSuffix,
                          queryResultChan_dm = chans_dm c\<rparr>],
                    chans_dm := Suc (chans_dm c),
                    tickers_dm := Suc (tickers_dm c)\<rparr>
        in Query_select_dm nameWithSuffix ty es (sendQuestion_dm nameWithSuffix ty c1))"

section \<open>Vocabulary of the statements and concrete inputs\<close>

text \<open>The comparison both inner loops of \<^verbatim>\<open>processAnswers\<close> make.\<close>

definition query_matches :: "query \<Rightarrow> RR_Header \<Rightarrow> bool" where
  "query_matches q h = (nameWithSuffix q = Name h \<and> ttype q = Rrtype h)"

text \<open>The headers of the answers of a message that the type switch lets through.\<close>

definition considered_headers :: "Msg \<Rightarrow> RR_Header list" where
  "considered_headers msg = List.map_filter switch_header (Answer msg)"

definition cfg0 :: Config where
  "cfg0 = \<lparr>QueryInterval = 0, ARecords = [], SRVRecords = []\<rparr>"

definition conn0 :: Conn where
  "conn0 = \<lparr>config = cfg0, queries = [], closed = False, socket_out = [], chan_out = [],
            chans = 0, tickers = 0\<rparr>"

definition cfg_dm0 :: Config_dm where
  "cfg_dm0 = \<lparr>QueryInterval_dm = 0, ARecords_dm = [], SRVRecords_dm = []\<rparr>"

definition conn_dm0 :: Conn_dm where
  "conn_dm0 = \<lparr>config_dm = cfg_dm0, queries_dm = [], closed_dm = False, socket_out_dm = [],
               chans_dm = 0, tickers_dm = 0\<rparr>"

text \<open>A static A record as \<^verbatim>\<open>AddARecord\<close> of part_000 stores it.\<close>

definition static_A_dm :: "string \<Rightarrow> 8 word list \<Rightarrow> DynamicARecord" where
  "static_A_dm name ip =
     \<lparr>Res = \<lparr>Header = \<lparr>RH_Name = name, RH_Type = TypeA, RH_Class = ClassINET,
                        RH_TTL = responseTTL\<rparr>,
              Body = Some (AResource ip)\<rparr>,
      Dynamic_dm = False\<rparr>"

definition peer :: string where
  "peer = ''192.168.1.50:5353''"

definition no_route :: "string \<Rightarrow> IP option" where
  "no_route s = None"

text \<open>An inbound \<^verbatim>\<open>*dns.A\<close> answer for a name.\<close>

definition wire_A :: "string \<Rightarrow> RR" where
  "wire_A name =
     RR_A \<lparr>A_Hdr = \<lparr>Name = name, Rrtype = TypeA, Class = ClassINET, Ttl = 120\<rparr>,
           A_A = [10, 0, 0, 5]\<rparr>"

definition response_with :: "RR list \<Rightarrow> Msg" where
  "response_with rrs =
     \<lparr>Id = 0, Response = True, Opcode = 0, Authoritative = True, Truncated = False,
      RecursionDesired = False, Rcode = 0, Compress = False, Question = [], Answer = rrs\<rparr>"

definition four_answers :: Msg where
  "four_answers =
     response_with [wire_A ''a.local.'', wire_A ''b.local.'', wire_A ''c.local.'', wire_A ''d.local.'']"

definition conn_waiting_d :: Conn where
  "conn_waiting_d =
     conn0\<lparr>queries := [\<lparr>ttype = TypeA, nameWithSuffix = ''d.local.'', queryResultChan = 0\<rparr>],
           chans := 1, tickers := 1\<rparr>"

text \<open>
  The store of scenario C in the dnsmessage variant: a static A record for
  \<^verbatim>\<open>node.local.\<close> and the SRV record \<^verbatim>\<open>AddSRVRecord\<close> makes for
  \<^verbatim>\<open>_svc._tcp.local.\<close> with that target.
\<close>

definition cfg_dm_chase :: Config_dm where
  "cfg_dm_chase =
     snd (AddSRVRecord_dm ''_svc._tcp.local.'' 0 0 8080 ''node.local.''
            (cfg_dm0\<lparr>ARecords_dm := [static_A_dm ''node.local.'' [10, 0, 0, 9]]\<rparr>))"

definition srv_question_dm :: Question_dm where
  "srv_question_dm = \<lparr>Q_Name = ''_svc._tcp.local.'', Q_Type = TypeSRV, Q_Class = ClassINET\<rparr>"

definition cfg_dm_x :: Config_dm where
  "cfg_dm_x = cfg_dm0\<lparr>ARecords_dm := [static_A_dm ''x.local.'' [10, 0, 0, 5]]\<rparr>"

text \<open>The datagram of scenario F: OPCODE 2 and a valid question.\<close>

definition opcode2_packet_dm :: packet_dm where
  "opcode2_packet_dm =
     \<lparr>P_Header = Header_zero\<lparr>OpCode_dm := 2\<rparr>,
      P_Questions = [\<lparr>Q_Name = ''x.local.'', Q_Type = TypeA, Q_Class = ClassINET\<rparr>]\<rparr>"

text \<open>An inbound standard query for the A record of \<^verbatim>\<open>x.local.\<close>.\<close>

definition query_x :: Msg where
  "query_x =
     \<lparr>Id = 0, Response = False, Opcode = 0, Authoritative = False, Truncated = False,
      RecursionDesired = False, Rcode = 0, Compress = False,
      Question = [\<lparr>QName = ''x.local.'', Qtype = TypeA, Qclass = ClassINET\<rparr>], Answer = []\<rparr>"

section \<open>Removing a record\<close>

lemma removeARecord_from_last:
  assumes "recs \<noteq> []" and "Name (A_Hdr (A (last recs))) = name"
  shows "removeARecord_from name recs (length recs) = Panic"
proof -
  from assms(1) obtain n where n: "length recs = Suc n" by (cases recs) auto
  with assms(1) have "recs ! n = last recs" by (simp add: last_conv_nth)
  with assms(2) n show ?thesis by (simp add: append_elem_after_def)
qed

lemma removeSRVRecord_from_last:
  assumes "recs \<noteq> []" and "Name (SRV_Hdr (last recs)) = name"
  shows "removeSRVRecord_from name recs (length recs) = Panic"
proof -
  from assms(1) obtain n where n: "length recs = Suc n" by (cases recs) auto
  with assms(1) have "recs ! n = last recs" by (simp add: last_conv_nth)
  with assms(2) n show ?thesis by (simp add: append_elem_after_def)
qed

text \<open>
  Whenever the last record of the list carries the name, the removal panics, whatever
  else the store holds.
\<close>

lemma removeARecord_last_panics:
  "ARecords c \<noteq> [] \<Longrightarrow> Name (A_Hdr (A (last (ARecords c)))) = name \<Longrightarrow>
   removeARecord name c = Panic"
  by (simp add: removeARecord_def removeARecord_from_last)

lemma removeSRVRecord_last_panics:
  "SRVRecords c \<noteq> [] \<Longrightarrow> Name (SRV_Hdr (last (SRVRecords c))) = name \<Longrightarrow>
   removeSRVRecord name c = Panic"
  by (simp add: removeSRVRecord_def removeSRVRecord_from_last)

lemma addARecord_stored:
  "addARecord name dst dyn c = (None, c') \<Longrightarrow>
   ARecords c' \<noteq> [] \<and> Name (A_Hdr (A (last (ARecords c')))) = addDot name
   \<and> Ttl (A_Hdr (A (last (ARecords c')))) = 10 \<and> Rrtype (A_Hdr (A (last (ARecords c')))) = 1"
  by (auto simp: addARecord_def addARecordToConfig_def createSimpleARecord_def Let_def
        responseTTL_def TypeA_def split: if_splits option.splits)

lemma addSRVRecord_stored:
  "addSRVRecord name priority weight port target c = (None, c') \<Longrightarrow>
   SRVRecords c' \<noteq> [] \<and> Name (SRV_Hdr (last (SRVRecords c'))) = addDot name
   \<and> Ttl (SRV_Hdr (last (SRVRecords c'))) = 0 \<and> Rrtype (SRV_Hdr (last (SRVRecords c'))) = 33"
  by (auto simp: addSRVRecord_def addSRVRecordToConfig_def createSRVRecord_def
        TypeSRV_def split: if_splits)

text \<open>
  A successful add followed by the removal of the stored name never returns: the record
  just added is the last of the list.
\<close>

lemma add_then_remove_A_panics:
  "addARecord name dst dyn c = (None, c') \<Longrightarrow> removeARecord (addDot name) c' = Panic"
  using addARecord_stored [of name dst dyn c c'] by (simp add: removeARecord_last_panics)

lemma add_then_remove_SRV_panics:
  "addSRVRecord name priority weight port target c = (None, c') \<Longrightarrow>
   removeSRVRecord (addDot name) c' = Panic"
  using addSRVRecord_stored [of name priority weight port target c c']
  by (simp add: removeSRVRecord_last_panics)

text \<open>
  C4.  Claim: \<^verbatim>\<open>add_a(name, ...)\<close> followed by \<^verbatim>\<open>remove_a(name)\<close> returns the store to a
  state in which an A lookup of the name yields no A record, and likewise for
  \<^verbatim>\<open>add_srv\<close> and \<^verbatim>\<open>remove_srv\<close>.  On the code, the removal that follows a successful
  add panics with an index out of range and returns no store at all: here on the empty
  store, for \<^verbatim>\<open>x.local.\<close> and for \<^verbatim>\<open>_svc._tcp.local.\<close>.
\<close>

theorem C4_add_then_remove_panics:
  "removeARecord ''x.local.'' (snd (addARecord ''x.local.'' (Some [10, 0, 0, 1]) False cfg0)) = Panic
   \<and> removeSRVRecord ''_svc._tcp.local.''
        (snd (addSRVRecord ''_svc._tcp.local.'' 0 0 8080 ''node.local.'' cfg0)) = Panic"
  by (simp add: removeARecord_def removeSRVRecord_def addARecord_def addSRVRecord_def
      addARecordToConfig_def addSRVRecordToConfig_def createSimpleARecord_def
      createSRVRecord_def addDot_def lower_char_def append_elem_after_def cfg0_def)

text \<open>
  C10.  Claim: \<^verbatim>\<open>remove_a\<close> and \<^verbatim>\<open>remove_srv\<close> complete without an out-of-bounds
  access, also when the sole matching record is the last element of the list.  On the
  code, a store whose only A record (only SRV record) carries the name makes the removal
  read index 1 of a list of length 1.
\<close>

theorem C10_remove_sole_record_panics:
  "removeARecord ''x.local.''
     (cfg0\<lparr>ARecords := [createSimpleARecord ''x.local.'']\<rparr>) = Panic
   \<and> removeSRVRecord ''_svc._tcp.local.''
       (cfg0\<lparr>SRVRecords := [createSRVRecord ''_svc._tcp.local.'' 0 0 8080 ''node.local.'']\<rparr>) = Panic"
  by (simp add: removeARecord_def removeSRVRecord_def createSimpleARecord_def
      createSRVRecord_def append_elem_after_def cfg0_def)

section \<open>What an inserted record carries\<close>

text \<open>
  An A record that \<^verbatim>\<open>addARecord\<close> stores has TTL 10 and type 1 (\<open>addARecord_stored\<close>
  above); an SRV record that \<^verbatim>\<open>addSRVRecord\<close> stores has type 33 and TTL 0
  (\<open>addSRVRecord_stored\<close>).

  C9.  Claim: every record inserted by \<^verbatim>\<open>add_a\<close> or \<^verbatim>\<open>add_srv\<close> carries TTL 10 and the
  type code of its kind (1 for A, 33 for SRV).  On the code, the SRV record that
  \<^verbatim>\<open>addSRVRecord\<close> of config.go inserts has TTL 0 (the struct literal of
  \<^verbatim>\<open>createSRVRecord\<close> names no \<^verbatim>\<open>Ttl\<close>), and the one \<^verbatim>\<open>AddSRVRecord\<close> of part_000 inserts
  has type 1 (its literal says \<^verbatim>\<open>TypeA\<close>).
\<close>

theorem C9_SRV_record_ttl_and_type:
  "map (\<lambda>r. (Rrtype (SRV_Hdr r), Ttl (SRV_Hdr r)))
       (SRVRecords (snd (addSRVRecord ''_svc._tcp.local.'' 0 0 8080 ''node.local.'' cfg0)))
     = [(33, 0)]
   \<and> map (\<lambda>r. (RH_Type (Header r), RH_TTL (Header r)))
         (SRVRecords_dm (snd (AddSRVRecord_dm ''_svc._tcp.local.'' 0 0 8080 ''node.local.'' cfg_dm0)))
     = [(1, 10)]"
  by (simp add: addSRVRecord_def addSRVRecordToConfig_def createSRVRecord_def addDot_def
      lower_char_def cfg0_def AddSRVRecord_dm_def createSRVRecord_dm_def NewName_def
      addSRVRecordToConfig_dm_def cfg_dm0_def TypeSRV_def TypeA_def responseTTL_def)

section \<open>Names at the public interface\<close>

text \<open>
  \<^verbatim>\<open>addARecord\<close>, \<^verbatim>\<open>addSRVRecord\<close> and \<^verbatim>\<open>QuerySync\<close> pass the name through
  \<^verbatim>\<open>addDot\<close> (\<open>addARecord_stored\<close>, \<open>addSRVRecord_stored\<close>,
  \<open>QuerySync_registers_addDot\<close>).  The removals compare the name as given.
\<close>

lemma removeARecord_from_absent:
  "k \<le> length recs \<Longrightarrow> \<not> list_ex (\<lambda>r. Name (A_Hdr (A r)) = name) recs \<Longrightarrow>
   removeARecord_from name recs k = Return (Some errRecordNotFound, recs)"
  by (induction k) (auto simp: list_ex_iff)

lemma removeARecord_raw_name:
  "\<not> list_ex (\<lambda>r. Name (A_Hdr (A r)) = name) (ARecords c) \<Longrightarrow>
   removeARecord name c = Return (Some errRecordNotFound, c)"
  by (simp add: removeARecord_def removeARecord_from_absent)

lemma QuerySync_registers_addDot:
  "\<not> closed c \<Longrightarrow>
   queries (snd (QuerySync new_id name ty [] c)) =
     queries c @ [\<lparr>ttype = ty, nameWithSuffix = addDot name, queryResultChan = chans c\<rparr>]"
  by (simp add: QuerySync_def Let_def sendQuestion_def)

text \<open>
  C8.  Claim: every name accepted by add, remove and query, with or without a trailing
  dot, is brought to the canonical form before it is used as a key, as a registered
  query name or in a comparison, and a name that ends in a dot gains no second dot.
  On the code: after \<^verbatim>\<open>add_a("x.local")\<close> the store holds \<^verbatim>\<open>x.local.\<close>, and
  \<^verbatim>\<open>remove_a("x.local")\<close> compares the name as given, finds nothing and leaves the
  store as it was; \<^verbatim>\<open>Query\<close> of conn.go registers \<^verbatim>\<open>x.local..\<close> for the name
  \<^verbatim>\<open>x.local.\<close>.
\<close>

theorem C8_remove_and_Query_dm_not_canonical:
  "removeARecord ''x.local'' (snd (addARecord ''x.local'' (Some [10, 0, 0, 1]) False cfg0))
     = Return (Some errRecordNotFound, snd (addARecord ''x.local'' (Some [10, 0, 0, 1]) False cfg0))
   \<and> map (\<lambda>r. Name (A_Hdr (A r)))
         (ARecords (snd (addARecord ''x.local'' (Some [10, 0, 0, 1]) False cfg0))) = [''x.local.'']
   \<and> map nameWithSuffix_dm (queries_dm (snd (Query_dm ''x.local.'' TypeA [CtxDone] conn_dm0)))
     = [''x.local..'']"
  by (simp add: removeARecord_def addARecord_def addARecordToConfig_def createSimpleARecord_def
      addDot_def lower_char_def cfg0_def Query_dm_def conn_dm0_def sendQuestion_dm_def
      NewName_def Let_def)

section \<open>Lookup\<close>

text \<open>An A question never reaches the recursive call of \<^verbatim>\<open>Lookup\<close> (config.go).\<close>

lemma Lookup_A_flat:
  "Qtype q = TypeA \<Longrightarrow>
   Lookup ifr c answers q src =
     (case lookupA c (QName q) of
        Some rec \<Rightarrow>
          if Dynamic rec then
            (case ifr src of
               None \<Rightarrow> (answers, Some errInvalidParameter)
             | Some dst \<Rightarrow> (answers @ [RR_DynamicARR (rec\<lparr>A := (A rec)\<lparr>A_A := dst\<rparr>\<rparr>)], None))
          else (answers @ [RR_DynamicARR rec], None)
      | None \<Rightarrow> (answers, None))"
  by (simp add: Lookup.simps AddDynamicIP_def split: option.splits)

lemma Lookup_A_append:
  "Qtype q = TypeA \<Longrightarrow>
   Lookup ifr c answers q src =
     (answers @ fst (Lookup ifr c [] q src), snd (Lookup ifr c [] q src))"
  by (simp add: Lookup_A_flat split: option.splits)

text \<open>
  In config.go an SRV question with a matching record yields the SRV record followed by
  what the A lookup of the record's target yields for the same peer, and that lookup's
  error.
\<close>

lemma Lookup_SRV_chases_target:
  assumes "Qtype q = TypeSRV" and "lookupSRV c (QName q) = Some rec"
  shows "Lookup ifr c [] q src =
           (RR_SRV rec #
              fst (Lookup ifr c [] \<lparr>QName = Target rec, Qtype = TypeA, Qclass = Class (SRV_Hdr rec)\<rparr> src),
            snd (Lookup ifr c [] \<lparr>QName = Target rec, Qtype = TypeA, Qclass = Class (SRV_Hdr rec)\<rparr> src))"
proof -
  let ?newQ = "\<lparr>QName = Target rec, Qtype = TypeA, Qclass = Class (SRV_Hdr rec)\<rparr>"
  have "TypeSRV \<noteq> TypeA" by (simp add: TypeSRV_def TypeA_def)
  with assms have "Lookup ifr c [] q src = Lookup ifr c [RR_SRV rec] ?newQ src"
    by (subst Lookup.simps) simp
  also have "\<dots> = ([RR_SRV rec] @ fst (Lookup ifr c [] ?newQ src), snd (Lookup ifr c [] ?newQ src))"
    by (rule Lookup_A_append) simp
  finally show ?thesis by simp
qed

lemma cfg_dm_chase_eq:
  "cfg_dm_chase = \<lparr>QueryInterval_dm = 0,
      ARecords_dm = [static_A_dm ''node.local.'' [10, 0, 0, 9]],
      SRVRecords_dm = [\<lparr>Header = \<lparr>RH_Name = ''_svc._tcp.local.'', RH_Type = TypeA,
                           RH_Class = ClassINET, RH_TTL = responseTTL\<rparr>,
                        Body = Some (SRVResource ''node.local.'' 0 0 8080)\<rparr>]\<rparr>"
  by (simp add: cfg_dm_chase_def AddSRVRecord_dm_def createSRVRecord_dm_def NewName_def
      addSRVRecordToConfig_dm_def cfg_dm0_def)

text \<open>
  C1.  Claim: an SRV lookup of a name with a matching SRV record returns the SRV answer
  followed by the result of one A lookup on the record's target, and never asks again
  for the record's own name and type.  \<^verbatim>\<open>Lookup\<close> of config.go does so
  (\<open>Lookup_SRV_chases_target\<close>).  \<^verbatim>\<open>Lookup\<close> of part_000 calls itself with the name,
  type and class of the record's own header: on the store of scenario C its own copy of
  the answers ends with the SRV record alone, although an A lookup of the target
  \<^verbatim>\<open>node.local.\<close> finds the address, and the response the receive loop of conn.go
  sends for the SRV question carries no record.
\<close>

theorem C1_Lookup_dm_requeries_own_name:
  "Lookup_dm no_route cfg_dm_chase [] ''_svc._tcp.local.'' TypeSRV ClassINET peer
     = Some ([\<lparr>Header = \<lparr>RH_Name = ''_svc._tcp.local.'', RH_Type = TypeA,
                         RH_Class = ClassINET, RH_TTL = responseTTL\<rparr>,
               Body = Some (SRVResource ''node.local.'' 0 0 8080)\<rparr>], None)
   \<and> Lookup_dm no_route cfg_dm_chase [] ''node.local.'' TypeA ClassINET peer
     = Some ([Res (static_A_dm ''node.local.'' [10, 0, 0, 9])], None)
   \<and> start_packet_dm no_route \<lparr>P_Header = Header_zero, P_Questions = [srv_question_dm]\<rparr> peer
        (conn_dm0\<lparr>config_dm := cfg_dm_chase\<rparr>)
     = Some (conn_dm0\<lparr>config_dm := cfg_dm_chase, socket_out_dm := [createMessage []]\<rparr>)"
  by (simp add: cfg_dm_chase_eq Lookup_dm.simps lookupSRV_dm_def lookupA_dm_def static_A_dm_def
      TypeA_def TypeSRV_def start_packet_dm_def srv_question_dm_def conn_dm0_def
      sendAnswer_dm_def maxQueryMessageRecords_def)

text \<open>
  With no matching record \<^verbatim>\<open>Lookup\<close> of config.go returns the empty slice and no error,
  and \<^verbatim>\<open>processQuestions\<close> then sends a message built from the empty slice.
\<close>

lemma Lookup_no_match:
  "lookupA c (QName q) = None \<Longrightarrow> lookupSRV c (QName q) = None \<Longrightarrow>
   Lookup ifr c [] q src = ([], None)"
  by (subst Lookup.simps) simp

lemma processQuestions_no_match:
  "lookupA (config c) (QName q) = None \<Longrightarrow> lookupSRV (config c) (QName q) = None \<Longrightarrow>
   Question msg = [q] \<Longrightarrow>
   processQuestions ifr msg src c = c\<lparr>socket_out := socket_out c @ [createAnswerMessage msg []]\<rparr>"
  by (simp add: processQuestions_def sendAnswer_def Lookup_no_match)

text \<open>
  C3.  Claim: for a question with no matching record, lookup returns an empty result
  without error and the packet engine sends no response for that question.  On the
  code (config.go and part_001), with the empty store and an A question for
  \<^verbatim>\<open>x.local.\<close>: \<^verbatim>\<open>Lookup\<close> returns the empty slice and \<^verbatim>\<open>nil\<close>, and
  \<^verbatim>\<open>processQuestions\<close>, as \<^verbatim>\<open>Start\<close> runs it on the packet, hands the socket one response
  whose answer section is empty.
\<close>

theorem C3_processQuestions_sends_empty_answer:
  "Lookup no_route cfg0 [] \<lparr>QName = ''x.local.'', Qtype = TypeA, Qclass = ClassINET\<rparr> peer = ([], None)
   \<and> processQuestions no_route query_x peer conn0
     = conn0\<lparr>socket_out := [createAnswerMessage query_x []]\<rparr>
   \<and> Answer (createAnswerMessage query_x []) = []
   \<and> Start_packet (\<lambda>b. Some query_x) no_route \<lparr>pkt_buf = replicate 29 0, pkt_src = peer\<rparr> conn0
     = conn0\<lparr>socket_out := [createAnswerMessage query_x []]\<rparr>"
  by (simp add: Lookup.simps lookupA_def cfg0_def processQuestions_def query_x_def conn0_def
      sendAnswer_def createAnswerMessage_def Start_packet_def processAnswers_def)

section \<open>The protocol gates\<close>

text \<open>
  \<^verbatim>\<open>Start\<close> of part_001 (and \<^verbatim>\<open>start\<close> of part_002, which has the same three tests in
  the same place) leaves the connection as it was for a packet whose header has a
  non-zero OPCODE or RCODE or the TC bit: nothing is sent and the registry is untouched.
\<close>

lemma Start_packet_gates:
  "unpack (pkt_buf p) = Some msg \<Longrightarrow> Opcode msg \<noteq> 0 \<or> Rcode msg \<noteq> 0 \<or> Truncated msg \<Longrightarrow>
   Start_packet unpack ifr p c = c"
  by (auto simp: Start_packet_def)

text \<open>\<^verbatim>\<open>start\<close> of conn.go never looks at the header.\<close>

lemma start_packet_dm_ignores_header:
  "start_packet_dm ifr (pkt\<lparr>P_Header := h\<rparr>) src c = start_packet_dm ifr pkt src c"
  by (simp add: start_packet_dm_def)

text \<open>
  C2.  Claim: for every inbound packet with OPCODE or RCODE non-zero or the TC bit set,
  the receive loop emits no response and does not update the query registry.  The
  receive loops of part_001 and part_002 do so (\<open>Start_packet_gates\<close>).  The receive
  loop of conn.go has no such test: for the datagram of scenario F (OPCODE 2, an A
  question for \<^verbatim>\<open>x.local.\<close>) and a store with a static A record of that name it sends
  a response.
\<close>

theorem C2_start_dm_answers_gated_packet:
  "OpCode_dm (P_Header opcode2_packet_dm) = 2
   \<and> start_packet_dm no_route opcode2_packet_dm peer (conn_dm0\<lparr>config_dm := cfg_dm_x\<rparr>)
     = Some (conn_dm0\<lparr>config_dm := cfg_dm_x, socket_out_dm := [createMessage []]\<rparr>)"
  by (simp add: opcode2_packet_dm_def start_packet_dm_def cfg_dm_x_def cfg_dm0_def conn_dm0_def
      Lookup_dm.simps lookupA_dm_def static_A_dm_def TypeA_def sendAnswer_dm_def
      maxQueryMessageRecords_def)

section \<open>Answers and the query registry\<close>

text \<open>
  One scan of the registry for a header: the queries that match are cut out, each is sent
  the result on its channel (from the last entry down), and nothing else changes.
\<close>

lemma deliver_from_frame:
  "config (deliver_from h res k c) = config c \<and> closed (deliver_from h res k c) = closed c
   \<and> socket_out (deliver_from h res k c) = socket_out c \<and> chans (deliver_from h res k c) = chans c
   \<and> tickers (deliver_from h res k c) = tickers c"
  by (induction k arbitrary: c) simp_all

lemma deliver_from_queries:
  "k \<le> length (queries c) \<Longrightarrow>
   queries (deliver_from h res k c) =
     filter (\<lambda>q. \<not> query_matches q h) (take k (queries c)) @ drop k (queries c)"
proof (induction k arbitrary: c)
  case 0
  then show ?case by simp
next
  case (Suc i)
  then have lt: "i < length (queries c)" by simp
  show ?case
  proof (cases "query_matches (queries c ! i) h")
    case True
    let ?c' = "c\<lparr>chan_out := chan_out c @ [(queryResultChan (queries c ! i), res)],
                queries := take i (queries c) @ drop (Suc i) (queries c)\<rparr>"
    have "i \<le> length (queries ?c')" using lt by simp
    from Suc.IH [OF this] True lt show ?thesis
      by (simp add: query_matches_def take_Suc_conv_app_nth)
  next
    case False
    have "i \<le> length (queries c)" using lt by simp
    from Suc.IH [OF this] False lt show ?thesis
      by (auto simp add: query_matches_def take_Suc_conv_app_nth Cons_nth_drop_Suc)
  qed
qed

lemma deliver_from_chan_out:
  "k \<le> length (queries c) \<Longrightarrow>
   chan_out (deliver_from h res k c) =
     chan_out c @ map (\<lambda>q. (queryResultChan q, res))
                      (rev (filter (\<lambda>q. query_matches q h) (take k (queries c))))"
proof (induction k arbitrary: c)
  case 0
  then show ?case by simp
next
  case (Suc i)
  then have lt: "i < length (queries c)" by simp
  show ?case
  proof (cases "query_matches (queries c ! i) h")
    case True
    let ?c' = "c\<lparr>chan_out := chan_out c @ [(queryResultChan (queries c ! i), res)],
                queries := take i (queries c) @ drop (Suc i) (queries c)\<rparr>"
    have "i \<le> length (queries ?c')" using lt by simp
    from Suc.IH [OF this] True lt show ?thesis
      by (simp add: query_matches_def take_Suc_conv_app_nth)
  next
    case False
    have "i \<le> length (queries c)" using lt by simp
    from Suc.IH [OF this] False lt show ?thesis
      by (auto simp add: query_matches_def take_Suc_conv_app_nth)
  qed
qed

lemma mset_split_matches:
  "mset (map f (filter P xs)) + mset (map f (filter (\<lambda>x. \<not> P x \<and> Q x) xs))
     = mset (map f (filter (\<lambda>x. P x \<or> Q x) xs))"
  by (induction xs) auto

lemma foldl_answer_step_frame:
  "config (foldl (answer_step res) c as) = config c
   \<and> closed (foldl (answer_step res) c as) = closed c
   \<and> socket_out (foldl (answer_step res) c as) = socket_out c
   \<and> chans (foldl (answer_step res) c as) = chans c
   \<and> tickers (foldl (answer_step res) c as) = tickers c"
  by (induction as arbitrary: c) (simp_all add: answer_step_def deliver_from_frame split: option.splits)

lemma foldl_answer_step_queries:
  "queries (foldl (answer_step res) c as) =
     filter (\<lambda>q. \<not> list_ex (query_matches q) (List.map_filter switch_header as)) (queries c)"
proof (induction as arbitrary: c)
  case Nil
  then show ?case by (simp add: map_filter_simps)
next
  case (Cons a as)
  show ?case
  proof (cases "switch_header a")
    case None
    with Cons show ?thesis by (simp add: answer_step_def map_filter_simps)
  next
    case (Some h)
    have "queries (answer_step res c a) = filter (\<lambda>q. \<not> query_matches q h) (queries c)"
      using Some by (simp add: answer_step_def deliver_from_queries)
    with Cons [of "answer_step res c a"] Some show ?thesis
      by (simp add: map_filter_simps conj_commute)
  qed
qed

lemma foldl_answer_step_chan_out:
  "mset (chan_out (foldl (answer_step res) c as)) =
     mset (chan_out c) +
     mset (map (\<lambda>q. (queryResultChan q, res))
            (filter (\<lambda>q. list_ex (query_matches q) (List.map_filter switch_header as)) (queries c)))"
proof (induction as arbitrary: c)
  case Nil
  then show ?case by (simp add: map_filter_simps)
next
  case (Cons a as)
  show ?case
  proof (cases "switch_header a")
    case None
    with Cons show ?thesis by (simp add: answer_step_def map_filter_simps)
  next
    case (Some h)
    let ?c1 = "answer_step res c a"
    let ?f = "\<lambda>q. (queryResultChan q, res)"
    let ?hs = "List.map_filter switch_header as"
    have q1: "queries ?c1 = filter (\<lambda>q. \<not> query_matches q h) (queries c)"
      using Some by (simp add: answer_step_def deliver_from_queries)
    have o1: "mset (chan_out ?c1) =
                mset (chan_out c) + mset (map ?f (filter (\<lambda>q. query_matches q h) (queries c)))"
      using Some by (simp add: answer_step_def deliver_from_chan_out)
    have "mset (chan_out (foldl (answer_step res) c (a # as))) =
            mset (chan_out ?c1) +
            mset (map ?f (filter (\<lambda>q. list_ex (query_matches q) ?hs) (queries ?c1)))"
      using Cons [of ?c1] by simp
    also have "\<dots> = mset (chan_out c) +
            (mset (map ?f (filter (\<lambda>q. query_matches q h) (queries c))) +
             mset (map ?f (filter (\<lambda>q. list_ex (query_matches q) ?hs)
                            (filter (\<lambda>q. \<not> query_matches q h) (queries c)))))"
      by (simp add: q1 o1)
    also have "\<dots> = mset (chan_out c) +
            mset (map ?f (filter (\<lambda>q. query_matches q h \<or> list_ex (query_matches q) ?hs) (queries c)))"
      by (simp only: filter_filter mset_split_matches)
    finally show ?thesis using Some by (simp add: map_filter_simps)
  qed
qed

text \<open>
  C5 (as amended).  \<^verbatim>\<open>processAnswers\<close> of part_001 looks at an answer only if it is a
  \<^verbatim>\<open>*dns.A\<close> or a \<^verbatim>\<open>*dns.SRV\<close>.  Every registered query whose registered name and type
  code equal the name and type of the header of such an answer is sent, once, the
  whole answer section with the peer address, and is removed; the other queries stay,
  in their order.  The headers are those of all the answers of the message:
  \<^verbatim>\<open>maxMessageRecords\<close> is not consulted.  Nothing is written to the socket.
\<close>

theorem C5_processAnswers_every_answer:
  "queries (processAnswers msg src c) =
     filter (\<lambda>q. \<not> list_ex (query_matches q) (considered_headers msg)) (queries c)
   \<and> mset (chan_out (processAnswers msg src c)) =
       mset (chan_out c) +
       mset (map (\<lambda>q. (queryResultChan q, \<lparr>answer = Answer msg, addr = src\<rparr>))
              (filter (\<lambda>q. list_ex (query_matches q) (considered_headers msg)) (queries c)))
   \<and> socket_out (processAnswers msg src c) = socket_out c
   \<and> config (processAnswers msg src c) = config c"
  by (simp add: processAnswers_def considered_headers_def foldl_answer_step_queries
      foldl_answer_step_chan_out foldl_answer_step_frame)

text \<open>
  The theorem at the message of four A answers and a registry that waits for the name
  of the fourth.
\<close>

theorem C5_processAnswers_every_answer_witness:
  "queries (processAnswers four_answers peer conn_waiting_d) = []
   \<and> mset (chan_out (processAnswers four_answers peer conn_waiting_d)) =
       {#(0, \<lparr>answer = Answer four_answers, addr = peer\<rparr>)#}"
  using C5_processAnswers_every_answer [of four_answers peer conn_waiting_d]
  by (simp add: considered_headers_def four_answers_def response_with_def wire_A_def
      conn_waiting_d_def conn0_def query_matches_def TypeA_def map_filter_simps)

text \<open>
  C5 as claimed fails: with at most three answer records processed, a query that only
  the fourth answer matches would stay registered.  The first three answers alone
  change nothing, yet on the message of four the query is delivered to and removed.
\<close>

theorem C5_fourth_answer_is_processed:
  "processAnswers (four_answers\<lparr>Answer := take maxMessageRecords (Answer four_answers)\<rparr>) peer
      conn_waiting_d = conn_waiting_d
   \<and> queries (processAnswers four_answers peer conn_waiting_d) = []
   \<and> chan_out (processAnswers four_answers peer conn_waiting_d)
       = [(0, \<lparr>answer = Answer four_answers, addr = peer\<rparr>)]"
  by (simp add: processAnswers_def answer_step_def four_answers_def response_with_def wire_A_def
      conn_waiting_d_def conn0_def maxMessageRecords_def TypeA_def)

section \<open>The blocking query\<close>

lemma sendQuestion_frame:
  "queries (sendQuestion new_id name ty c) = queries c
   \<and> tickers (sendQuestion new_id name ty c) = tickers c
   \<and> chans (sendQuestion new_id name ty c) = chans c
   \<and> closed (sendQuestion new_id name ty c) = closed c
   \<and> chan_out (sendQuestion new_id name ty c) = chan_out c
   \<and> length (socket_out (sendQuestion new_id name ty c)) = Suc (length (socket_out c))"
  by (simp add: sendQuestion_def)

lemma QuerySync_select_frame:
  "queries (snd (QuerySync_select new_id name ty es c)) = queries c
   \<and> tickers (snd (QuerySync_select new_id name ty es c)) = tickers c
   \<and> chans (snd (QuerySync_select new_id name ty es c)) = chans c"
  by (induction new_id name ty es c rule: QuerySync_select.induct) (simp_all add: sendQuestion_frame)

lemma QuerySync_select_ticks_then_cancel:
  "fst (QuerySync_select new_id name ty (replicate n TickerC @ CtxDone # es) c)
     = Some (None, Some errContextElapsed)
   \<and> length (socket_out (snd (QuerySync_select new_id name ty (replicate n TickerC @ CtxDone # es) c)))
     = length (socket_out c) + n"
  by (induction n arbitrary: c) (simp_all add: sendQuestion_frame)

text \<open>
  C6 (as amended).  A blocking query of an open connection whose \<^verbatim>\<open>select\<close> sees any
  number of ticks and then the caller's cancellation returns \<^verbatim>\<open>errContextElapsed\<close>,
  having sent the question once and once more per tick.  \<^verbatim>\<open>QuerySync\<close> itself neither
  removes its entry nor stops its ticker: afterwards the registry is the one before
  the call with the query's entry appended, and one more ticker runs.
\<close>

theorem C6_cancel_leaves_entry_and_ticker:
  assumes "\<not> closed c"
  shows "fst (QuerySync new_id name ty (replicate n TickerC @ CtxDone # es) c)
           = Some (None, Some errContextElapsed)
         \<and> queries (snd (QuerySync new_id name ty (replicate n TickerC @ CtxDone # es) c))
           = queries c @ [\<lparr>ttype = ty, nameWithSuffix = addDot name, queryResultChan = chans c\<rparr>]
         \<and> tickers (snd (QuerySync new_id name ty (replicate n TickerC @ CtxDone # es) c))
           = Suc (tickers c)
         \<and> length (socket_out (snd (QuerySync new_id name ty (replicate n TickerC @ CtxDone # es) c)))
           = length (socket_out c) + Suc n"
  using assms
  by (simp add: QuerySync_def Let_def QuerySync_select_frame QuerySync_select_ticks_then_cancel
      sendQuestion_frame)

text \<open>The theorem on the fresh connection, with two ticks before the cancellation.\<close>

theorem C6_cancel_leaves_entry_and_ticker_witness:
  "\<not> closed conn0
   \<and> fst (QuerySync (\<lambda>n. 0) ''x.local'' TypeA [TickerC, TickerC, CtxDone] conn0)
       = Some (None, Some errContextElapsed)
   \<and> queries (snd (QuerySync (\<lambda>n. 0) ''x.local'' TypeA [TickerC, TickerC, CtxDone] conn0))
       = [\<lparr>ttype = TypeA, nameWithSuffix = ''x.local.'', queryResultChan = 0\<rparr>]
   \<and> tickers (snd (QuerySync (\<lambda>n. 0) ''x.local'' TypeA [TickerC, TickerC, CtxDone] conn0)) = 1
   \<and> length (socket_out (snd (QuerySync (\<lambda>n. 0) ''x.local'' TypeA [TickerC, TickerC, CtxDone] conn0))) = 3"
proof -
  have h: "\<not> closed conn0" by (simp add: conn0_def)
  have r: "replicate 2 TickerC @ CtxDone # [] = [TickerC, TickerC, CtxDone :: QueryResult select_event]"
    by (simp add: numeral_2_eq_2)
  from C6_cancel_leaves_entry_and_ticker [OF h, of "\<lambda>n. 0" "''x.local''" TypeA 2 "[]"]
  show ?thesis
    unfolding r using h by (simp add: conn0_def addDot_def lower_char_def)
qed

text \<open>
  C6 as claimed fails: after the cancelled query has returned \<^verbatim>\<open>errContextElapsed\<close>, the
  registry of the fresh connection holds the entry of that query and its ticker runs.
\<close>

theorem C6_registry_keeps_cancelled_query:
  "fst (QuerySync (\<lambda>n. 0) ''x.local'' TypeA [CtxDone] conn0) = Some (None, Some errContextElapsed)
   \<and> queries (snd (QuerySync (\<lambda>n. 0) ''x.local'' TypeA [CtxDone] conn0))
       = [\<lparr>ttype = TypeA, nameWithSuffix = ''x.local.'', queryResultChan = 0\<rparr>]
   \<and> tickers (snd (QuerySync (\<lambda>n. 0) ''x.local'' TypeA [CtxDone] conn0)) = 1"
  by (simp add: QuerySync_def Let_def conn0_def sendQuestion_def addDot_def lower_char_def)

text \<open>
  The same on every exit path of \<^verbatim>\<open>QuerySync\<close>, whatever the \<^verbatim>\<open>select\<close> sees; an entry
  leaves the registry only in \<^verbatim>\<open>processAnswers\<close>.
\<close>

lemma QuerySync_exit_keeps_entry:
  "\<not> closed c \<Longrightarrow>
   queries (snd (QuerySync new_id name ty es c))
     = queries c @ [\<lparr>ttype = ty, nameWithSuffix = addDot name, queryResultChan = chans c\<rparr>]
   \<and> tickers (snd (QuerySync new_id name ty es c)) = Suc (tickers c)"
  by (simp add: QuerySync_def Let_def QuerySync_select_frame sendQuestion_frame)

text \<open>\<^verbatim>\<open>Query\<close> of conn.go is built the same way and behaves the same.\<close>

lemma Query_select_dm_frame:
  "queries_dm (snd (Query_select_dm name ty es c)) = queries_dm c
   \<and> tickers_dm (snd (Query_select_dm name ty es c)) = tickers_dm c"
  by (induction name ty es c rule: Query_select_dm.induct)
     (simp_all add: sendQuestion_dm_def split: sum.splits)

lemma Query_dm_exit_keeps_entry:
  "\<not> closed_dm c \<Longrightarrow>
   queries_dm (snd (Query_dm name ty es c))
     = queries_dm c @ [\<lparr>ttype_dm = ty, nameWithSuffix_dm = name @ ''.'',
                        queryResultChan_dm = chans_dm c\<rparr>]
   \<and> tickers_dm (snd (Query_dm name ty es c)) = Suc (tickers_dm c)"
  by (simp add: Query_dm_def Let_def Query_select_dm_frame sendQuestion_dm_def split: sum.splits)

section \<open>The outbound question\<close>

text \<open>
  C7 (as amended).  The question message of the miekg variant has QR clear, RD set and
  one question of class IN with the requested name and type; its identifier is the one
  the library's generator hands out.  The question message of conn.go has identifier 0,
  QR clear, RD clear and one question of class IN, whose type is the requested one when
  that is A or SRV and 0 otherwise.  Each \<^verbatim>\<open>sendQuestion\<close> hands the socket exactly that
  message (conn.go: unless the name is longer than 255 bytes, when nothing is sent).
\<close>

theorem C7_question_message_header:
  "Id (question_msg fresh name ty) = fresh
   \<and> Response (question_msg fresh name ty) = False
   \<and> RecursionDesired (question_msg fresh name ty) = True
   \<and> Question (question_msg fresh name ty) = [\<lparr>QName = name, Qtype = ty, Qclass = ClassINET\<rparr>]
   \<and> socket_out (sendQuestion new_id name ty c)
       = socket_out c @ [question_msg (new_id (length (socket_out c))) name ty]
   \<and> ID_dm (M_Header (question_msg_dm name ty)) = 0
   \<and> Response_dm (M_Header (question_msg_dm name ty)) = False
   \<and> RecursionDesired_dm (M_Header (question_msg_dm name ty)) = False
   \<and> M_Questions (question_msg_dm name ty)
       = [\<lparr>Q_Name = name, Q_Type = (if ty = TypeA \<or> ty = TypeSRV then ty else 0),
           Q_Class = ClassINET\<rparr>]
   \<and> socket_out_dm (sendQuestion_dm name ty d)
       = (if 255 < length name then socket_out_dm d
          else socket_out_dm d @ [question_msg_dm name ty])"
  by (simp add: question_msg_def SetQuestion_def new_Msg_def sendQuestion_def question_msg_dm_def
      Header_zero_def sendQuestion_dm_def NewName_def)

text \<open>The theorem at an SRV question and at an AAAA question for \<^verbatim>\<open>x.local.\<close>.\<close>

theorem C7_question_message_header_witness:
  "socket_out (sendQuestion (\<lambda>n. 4660) ''x.local.'' TypeSRV conn0)
     = [question_msg 4660 ''x.local.'' TypeSRV]
   \<and> Question (question_msg 4660 ''x.local.'' TypeSRV)
     = [\<lparr>QName = ''x.local.'', Qtype = 33, Qclass = 1\<rparr>]
   \<and> M_Questions (question_msg_dm ''x.local.'' TypeAAAA)
     = [\<lparr>Q_Name = ''x.local.'', Q_Type = 0, Q_Class = 1\<rparr>]"
  using C7_question_message_header [of 4660 "''x.local.''" TypeSRV "\<lambda>n. 4660" conn0 conn_dm0]
        C7_question_message_header [of 4660 "''x.local.''" TypeAAAA "\<lambda>n. 4660" conn0 conn_dm0]
  by (simp add: conn0_def TypeSRV_def TypeA_def TypeAAAA_def ClassINET_def)

text \<open>
  C7 as claimed fails: the question conn.go sends has RD clear, and the question of
  the miekg variant carries the identifier the generator returned, here 4660.
\<close>

theorem C7_question_header_not_as_claimed:
  "map (\<lambda>m. (ID_dm (M_Header m), RecursionDesired_dm (M_Header m)))
       (socket_out_dm (sendQuestion_dm ''x.local.'' TypeA conn_dm0)) = [(0, False)]
   \<and> map (\<lambda>m. (Id m, RecursionDesired m))
       (socket_out (sendQuestion (\<lambda>n. 4660) ''x.local.'' TypeA conn0)) = [(4660, True)]"
  by (simp add: sendQuestion_dm_def NewName_def question_msg_dm_def Header_zero_def conn_dm0_def
      sendQuestion_def question_msg_def SetQuestion_def new_Msg_def conn0_def)

end
